theory Spec2Isabelle
  imports Main "HOL-Library.Sublist"
begin

section \<open>Values and exceptions of builder.py\<close>

text \<open>
  The exceptions that builder.py raises or lets through, by their Python names.
  \<open>SystemExit\<close> is what \<open>sys.exit\<close> raises; \<open>ChildLaunchError\<close> stands for the
  exception, an \<open>OSError\<close> such as \<open>FileNotFoundError\<close> for a missing program, that
  \<open>subprocess.run\<close> raises when the child cannot be started.
  A computation that may raise returns \<open>error + 'a\<close>, with \<open>Inl\<close> for the exception.
\<close>

datatype error =
    EnvironmentError string
  | FileNotFoundError string
  | ValueError string
  | SystemExit int
  | ChildLaunchError string

text \<open>\<open>sep.join(xs)\<close> and \<open>s.split(sep)\<close> for a one-character separator.\<close>

fun join :: "string \<Rightarrow> string list \<Rightarrow> string" where
  "join sep [] = []"
| "join sep [x] = x"
| "join sep (x # y # ys) = x @ sep @ join sep (y # ys)"

fun str_split :: "char \<Rightarrow> string \<Rightarrow> string list" where
  "str_split c [] = [[]]"
| "str_split c (x # xs) =
     (if x = c then [] # str_split c xs
      else (case str_split c xs of [] \<Rightarrow> [[x]] | y # ys \<Rightarrow> (x # y) # ys))"

text \<open>\<open>not x\<close> for an optional string: true for \<open>None\<close> and for the empty string.\<close>

definition py_not :: "string option \<Rightarrow> bool" where
  "py_not v = (v = None \<or> v = Some [])"

text \<open>\<open>build_options or []\<close>.\<close>

definition or_empty :: "string list option \<Rightarrow> string list" where
  "or_empty build_options = (case build_options of None \<Rightarrow> [] | Some xs \<Rightarrow> xs)"

section \<open>pathlib paths (POSIX flavour)\<close>

text \<open>
  A path is its root (\<open>''''\<close>, \<open>''/''\<close> or \<open>''//''\<close>) and its components. \<open>Path s\<close>
  parses a string as \<open>pathlib.PurePosixPath\<close> does: empty components and \<open>.\<close> are
  dropped. \<open>str_path\<close> is \<open>str(p)\<close> and \<open>joinpath p seg\<close> is \<open>p / seg\<close>.
\<close>

datatype path = PurePath (path_root: string) (path_tail: "string list")

definition splitroot :: "string \<Rightarrow> string \<times> string" where
  "splitroot p =
     (if take 1 p \<noteq> ''/'' then ([], p)
      else if take 1 (drop 1 p) \<noteq> ''/'' \<or> take 1 (drop 2 p) = ''/'' then (''/'', drop 1 p)
      else (take 2 p, drop 2 p))"

definition Path :: "string \<Rightarrow> path" where
  "Path s =
     (case splitroot s of
        (r, rel) \<Rightarrow> PurePath r (filter (\<lambda>x. x \<noteq> [] \<and> x \<noteq> ''.'') (str_split CHR ''/'' rel)))"

definition str_path :: "path \<Rightarrow> string" where
  "str_path p =
     (if path_root p = [] \<and> path_tail p = [] then ''.''
      else path_root p @ join ''/'' (path_tail p))"

definition joinpath :: "path \<Rightarrow> string \<Rightarrow> path" where
  "joinpath p seg =
     (let q = Path seg
      in if path_root q \<noteq> [] then q else PurePath (path_root p) (path_tail p @ path_tail q))"

section \<open>The host: platform, environment, files\<close>

text \<open>
  The filesystem is a finite table from path texts, as the program writes them, to the
  kind of entry found there; the entries below a directory \<open>d\<close> are those whose text
  starts with \<open>d\<close> and a slash. \<open>undeletable\<close> lists the entries whose removal the
  operating system refuses (permissions, files in use).
\<close>

datatype kind = RegularFile | Directory

record filesystem =
  entries :: "(string \<times> kind) list"
  undeletable :: "string list"

record host =
  platform :: string
  environ :: "string \<Rightarrow> string option"
  files :: filesystem

definition exists_str :: "filesystem \<Rightarrow> string \<Rightarrow> bool" where
  "exists_str fs p = (map_of (entries fs) p \<noteq> None)"

text \<open>\<open>p.exists()\<close>.\<close>

definition path_exists :: "filesystem \<Rightarrow> path \<Rightarrow> bool" where
  "path_exists fs p = exists_str fs (str_path p)"




section \<open>Child processes and the command runner\<close>

text \<open>
  The program's own effects are the command lines it hands to \<open>subprocess.run\<close>
  (\<open>issued\<close>, oldest first) and the texts it prints (\<open>printed\<close>, one element for each
  call of \<open>print\<close>). What a child does is decided outside the program: a \<open>system\<close>
  answers the log of commands issued so far, the last being the one to run, with the
  child's exit status, output and error stream, or with a failure to start it.
  Texts are byte strings in UTF-8.
\<close>

datatype child = Completed int string string | NotLaunched string

type_synonym system = "string list list \<Rightarrow> child"

record process =
  issued :: "string list list"
  printed :: "string list"

definition msg_command_failed :: string where
  "msg_command_failed =
     [CHR 0xE5, CHR 0x91, CHR 0xBD, CHR 0xE4, CHR 0xBB, CHR 0xA4, CHR 0xE6, CHR 0x89, CHR 0xA7,
      CHR 0xE8, CHR 0xA1, CHR 0x8C, CHR 0xE5, CHR 0xA4, CHR 0xB1, CHR 0xE8, CHR 0xB4, CHR 0xA5,
      CHR 0x3A, CHR 0x20]"

definition msg_error_output :: string where
  "msg_error_output =
     [CHR 0xE9, CHR 0x94, CHR 0x99, CHR 0xE8, CHR 0xAF, CHR 0xAF, CHR 0xE8, CHR 0xBE, CHR 0x93,
      CHR 0xE5, CHR 0x87, CHR 0xBA, CHR 0x3A, CHR 0x20]"

text \<open>
  \<open>run_cmd\<close> (builder.py, lines 28 to 36). Only \<open>CalledProcessError\<close>, the non-zero
  exit, is caught; any other exception of \<open>subprocess.run\<close> leaves the function.
\<close>

definition run_cmd :: "system \<Rightarrow> string list \<Rightarrow> process \<Rightarrow> (error + unit) \<times> process" where
  "run_cmd sys args s =
     (let s1 = s\<lparr>issued := issued s @ [args]\<rparr> in
      case sys (issued s1) of
        NotLaunched msg \<Rightarrow> (Inl (ChildLaunchError msg), s1)
      | Completed returncode out err \<Rightarrow>
          if returncode = 0 then (Inr (), s1\<lparr>printed := printed s1 @ [out]\<rparr>)
          else (Inl (SystemExit 1),
                s1\<lparr>printed := printed s1 @
                   [msg_command_failed @ join '' '' args, msg_error_output @ err]\<rparr>))"

section \<open>Builders\<close>

text \<open>
  An object of class \<open>NdkBuilder\<close> has the attributes \<open>build_dir\<close> and \<open>build_cmd\<close>;
  an object of a subclass of \<open>CMakeBuilder\<close> has \<open>build_dir\<close>, \<open>config_cmd\<close> and
  \<open>build_cmd\<close>, and its class.
\<close>

datatype cmake_class =
    CMakeWindowsVsMsvcBuilder_class
  | CMakeWindowsMingwBuilder_class
  | CMakeClangBuilder_class
  | CMakeGccBuilder_class
  | CMakeAndroidBuilder_class
  | CMakeOhosBuilder_class

datatype builder =
    NdkObject (build_dir: string) (build_cmd: "string list")
  | CMakeObject (cmake_class_of: cmake_class) (build_dir: string)
      (config_cmd: "string list") (build_cmd: "string list")


text \<open>
  \<open>NdkBuilder.build\<close> (line 101) and \<open>CMakeBuilder.build\<close> (line 112). The method
  assigns to no attribute, so the object comes back as it was; an exception of the
  first \<open>run_cmd\<close> ends the method.
\<close>

fun build ::
  "system \<Rightarrow> builder \<Rightarrow> string list option \<Rightarrow> process \<Rightarrow> (error + unit) \<times> builder \<times> process"
where
  "build sys (NdkObject d bc) build_options s =
     (let cmd = bc @ or_empty build_options
      in case run_cmd sys cmd s of (r, s1) \<Rightarrow> (r, NdkObject d bc, s1))"
| "build sys (CMakeObject c d cc bc) build_options s =
     (let config = cc @ or_empty build_options
      in case run_cmd sys config s of
           (Inl e, s1) \<Rightarrow> (Inl e, CMakeObject c d cc bc, s1)
         | (Inr u, s1) \<Rightarrow>
             (case run_cmd sys bc s1 of (r, s2) \<Rightarrow> (r, CMakeObject c d cc bc, s2)))"

section \<open>Constructors\<close>

text \<open>
  A constructor reads the host and returns the new object or the exception of its
  \<open>__init__\<close>. It runs inside the process, whose state it takes and returns. Each
  \<open>_get_...\<close> method of the source is given in two parts: the resolution of the
  toolchain path from the prefix or the environment variable, and the existence check
  with the tokens returned.
\<close>

text \<open>\<open>NdkBuilder._get_ndk_build_command\<close>, lines 80 to 89, then 91 to 99.\<close>

definition ndk_compiler_path :: "host \<Rightarrow> string \<Rightarrow> error + path" where
  "ndk_compiler_path h compiler_prefix =
     (let compiler = (if platform h = ''win32'' then ''ndk-build.cmd'' else ''ndk-build'')
      in if compiler_prefix \<noteq> [] then Inr (joinpath (Path compiler_prefix) compiler)
         else (let android_ndk = environ h ''ANDROID_NDK''
               in if py_not android_ndk
                  then Inl (EnvironmentError ''ANDROID_NDK environment variable is not set'')
                  else Inr (joinpath (Path (the android_ndk)) compiler)))"

definition get_ndk_build_command :: "host \<Rightarrow> string \<Rightarrow> string \<Rightarrow> error + string list" where
  "get_ndk_build_command h dir compiler_prefix =
     (case ndk_compiler_path h compiler_prefix of
        Inl e \<Rightarrow> Inl e
      | Inr compiler_path \<Rightarrow>
          if \<not> path_exists (files h) compiler_path
          then Inl (FileNotFoundError (str_path compiler_path @ '' does not exist''))
          else Inr [str_path compiler_path, ''V=1'', ''NDK_OUT='' @ dir, ''NDK_LIBS_OUT='' @ dir])"

definition NdkBuilder :: "host \<Rightarrow> string \<Rightarrow> string \<Rightarrow> process \<Rightarrow> (error + builder) \<times> process" where
  "NdkBuilder h dir compiler_prefix s =
     (case get_ndk_build_command h dir compiler_prefix of
        Inl e \<Rightarrow> (Inl e, s)
      | Inr cmd \<Rightarrow> (Inr (NdkObject dir cmd), s))"

text \<open>\<open>CMakeBuilder.__init__\<close> (line 107): the two command lines every CMake builder starts from.\<close>

definition cmake_config_cmd :: "string \<Rightarrow> string list" where
  "cmake_config_cmd dir = [''cmake'', ''-B'', dir]"

definition cmake_build_cmd :: "string \<Rightarrow> string list" where
  "cmake_build_cmd dir = [''cmake'', ''--build'', dir]"

text \<open>\<open>CMakeWindowsVsMsvcBuilder.__init__\<close> (line 119): no prefix parameter, nothing resolved.\<close>

definition CMakeWindowsVsMsvcBuilder :: "string \<Rightarrow> process \<Rightarrow> (error + builder) \<times> process" where
  "CMakeWindowsVsMsvcBuilder dir s =
     (Inr (CMakeObject CMakeWindowsVsMsvcBuilder_class dir
             (cmake_config_cmd dir @ [''-G'', ''Visual Studio 17 2022'']) (cmake_build_cmd dir)), s)"

text \<open>\<open>CMakeWindowsMingwBuilder._get_config_cmd\<close>, lines 130 to 139, then 141 to 148.\<close>

definition mingw_make_path :: "host \<Rightarrow> string \<Rightarrow> error + path" where
  "mingw_make_path h compiler_prefix =
     (let make = ''mingw32-make.exe''
      in if compiler_prefix \<noteq> [] then Inr (joinpath (Path compiler_prefix) make)
         else (let mingw = environ h ''MinGW''
               in if py_not mingw
                  then Inl (EnvironmentError ''MinGW environment variable is not set'')
                  else Inr (joinpath (joinpath (Path (the mingw)) ''bin'') make)))"

definition mingw_get_config_cmd :: "host \<Rightarrow> string \<Rightarrow> error + string list" where
  "mingw_get_config_cmd h compiler_prefix =
     (case mingw_make_path h compiler_prefix of
        Inl e \<Rightarrow> Inl e
      | Inr make_path \<Rightarrow>
          if \<not> path_exists (files h) make_path
          then Inl (FileNotFoundError (str_path make_path @ '' does not exist''))
          else Inr [''-G'', ''MinGW Makefiles'', ''-DCMAKE_MAKE_PROGRAM='' @ str_path make_path])"

definition CMakeWindowsMingwBuilder ::
  "host \<Rightarrow> string \<Rightarrow> string \<Rightarrow> process \<Rightarrow> (error + builder) \<times> process" where
  "CMakeWindowsMingwBuilder h dir compiler_prefix s =
     (case mingw_get_config_cmd h compiler_prefix of
        Inl e \<Rightarrow> (Inl e, s)
      | Inr extra \<Rightarrow>
          (Inr (CMakeObject CMakeWindowsMingwBuilder_class dir
                  (cmake_config_cmd dir @ extra) (cmake_build_cmd dir)), s))"

text \<open>
  \<open>CMakeClangBuilder._get_config_cmd\<close>, lines 157 to 169, then 171 to 181. With a
  prefix the two paths are parsed from the prefix text followed by the compiler's name.
\<close>

definition clang_compiler_paths :: "host \<Rightarrow> string \<Rightarrow> error + path \<times> path" where
  "clang_compiler_paths h compiler_prefix =
     (let compiler_c = (if platform h = ''win32'' then ''clang.exe'' else ''clang'');
          compiler_cpp = (if platform h = ''win32'' then ''clang++.exe'' else ''clang++'')
      in if compiler_prefix \<noteq> []
         then Inr (Path (compiler_prefix @ compiler_c), Path (compiler_prefix @ compiler_cpp))
         else (let llvm = environ h ''LLVM''
               in if py_not llvm
                  then Inl (EnvironmentError ''LLVM environment variable is not set'')
                  else Inr (joinpath (joinpath (Path (the llvm)) ''bin'') compiler_c,
                            joinpath (joinpath (Path (the llvm)) ''bin'') compiler_cpp)))"

definition ninja_compilers :: "filesystem \<Rightarrow> path \<times> path \<Rightarrow> error + string list" where
  "ninja_compilers fs ps =
     (case ps of
        (compiler_c_path, compiler_cpp_path) \<Rightarrow>
          if \<not> path_exists fs compiler_c_path
          then Inl (FileNotFoundError (str_path compiler_c_path @ '' does not exist''))
          else if \<not> path_exists fs compiler_cpp_path
          then Inl (FileNotFoundError (str_path compiler_cpp_path @ '' does not exist''))
          else Inr [''-G'', ''Ninja'',
                    ''-DCMAKE_C_COMPILER:FILEPATH='' @ str_path compiler_c_path,
                    ''-DCMAKE_CXX_COMPILER:FILEPATH='' @ str_path compiler_cpp_path])"

definition clang_get_config_cmd :: "host \<Rightarrow> string \<Rightarrow> error + string list" where
  "clang_get_config_cmd h compiler_prefix =
     (case clang_compiler_paths h compiler_prefix of
        Inl e \<Rightarrow> Inl e
      | Inr ps \<Rightarrow> ninja_compilers (files h) ps)"

definition CMakeClangBuilder ::
  "host \<Rightarrow> string \<Rightarrow> string \<Rightarrow> process \<Rightarrow> (error + builder) \<times> process" where
  "CMakeClangBuilder h dir compiler_prefix s =
     (case clang_get_config_cmd h compiler_prefix of
        Inl e \<Rightarrow> (Inl e, s)
      | Inr extra \<Rightarrow>
          (Inr (CMakeObject CMakeClangBuilder_class dir
                  (cmake_config_cmd dir @ extra) (cmake_build_cmd dir)), s))"

text \<open>
  \<open>CMakeGccBuilder._get_config_cmd\<close>, lines 190 to 202, then 204 to 214: the same
  lines as for Clang (the check and the tokens are \<open>ninja_compilers\<close>), with other names.
\<close>

definition gcc_compiler_paths :: "host \<Rightarrow> string \<Rightarrow> error + path \<times> path" where
  "gcc_compiler_paths h compiler_prefix =
     (let compiler_c = ''gcc''; compiler_cpp = ''g++''
      in if compiler_prefix \<noteq> []
         then Inr (Path (compiler_prefix @ compiler_c), Path (compiler_prefix @ compiler_cpp))
         else (let gcc = environ h ''GCC''
               in if py_not gcc
                  then Inl (EnvironmentError ''GCC environment variable is not set'')
                  else Inr (joinpath (joinpath (Path (the gcc)) ''bin'') compiler_c,
                            joinpath (joinpath (Path (the gcc)) ''bin'') compiler_cpp)))"

definition gcc_get_config_cmd :: "host \<Rightarrow> string \<Rightarrow> error + string list" where
  "gcc_get_config_cmd h compiler_prefix =
     (case gcc_compiler_paths h compiler_prefix of
        Inl e \<Rightarrow> Inl e
      | Inr ps \<Rightarrow> ninja_compilers (files h) ps)"

definition CMakeGccBuilder ::
  "host \<Rightarrow> string \<Rightarrow> string \<Rightarrow> process \<Rightarrow> (error + builder) \<times> process" where
  "CMakeGccBuilder h dir compiler_prefix s =
     (case gcc_get_config_cmd h compiler_prefix of
        Inl e \<Rightarrow> (Inl e, s)
      | Inr extra \<Rightarrow>
          (Inr (CMakeObject CMakeGccBuilder_class dir
                  (cmake_config_cmd dir @ extra) (cmake_build_cmd dir)), s))"

text \<open>\<open>CMakeAndroidBuilder._get_config_cmd\<close>, lines 223 to 232, then 234 to 244.\<close>

definition android_toolchain_path :: "host \<Rightarrow> string \<Rightarrow> error + path" where
  "android_toolchain_path h compiler_prefix =
     (if compiler_prefix \<noteq> []
      then Inr (joinpath (joinpath (joinpath (Path compiler_prefix) ''build'') ''cmake'')
                  ''android.toolchain.cmake'')
      else (let android_ndk = environ h ''ANDROID_NDK''
            in if py_not android_ndk
               then Inl (EnvironmentError ''ANDROID_NDK environment variable is not set'')
               else Inr (joinpath (joinpath (joinpath (Path (the android_ndk)) ''build'') ''cmake'')
                           ''android.toolchain.cmake'')))"

definition android_get_config_cmd :: "host \<Rightarrow> string \<Rightarrow> error + string list" where
  "android_get_config_cmd h compiler_prefix =
     (case android_toolchain_path h compiler_prefix of
        Inl e \<Rightarrow> Inl e
      | Inr cmake_toolchain \<Rightarrow>
          if \<not> path_exists (files h) cmake_toolchain
          then Inl (FileNotFoundError (str_path cmake_toolchain @ '' does not exist''))
          else Inr [''-G'', ''Ninja'',
                    ''-DCMAKE_TOOLCHAIN_FILE='' @ str_path cmake_toolchain,
                    ''-DANDROID_ABI=arm64-v8a'',
                    ''-DANDROID_STL=c++_shared'',
                    ''-DANDROID_PLATFORM=android-31''])"

definition CMakeAndroidBuilder ::
  "host \<Rightarrow> string \<Rightarrow> string \<Rightarrow> process \<Rightarrow> (error + builder) \<times> process" where
  "CMakeAndroidBuilder h dir compiler_prefix s =
     (case android_get_config_cmd h compiler_prefix of
        Inl e \<Rightarrow> (Inl e, s)
      | Inr extra \<Rightarrow>
          (Inr (CMakeObject CMakeAndroidBuilder_class dir
                  (cmake_config_cmd dir @ extra) (cmake_build_cmd dir)), s))"

text \<open>\<open>CMakeOhosBuilder._get_config_cmd\<close>, lines 253 to 262, then 264 to 274.\<close>

definition ohos_toolchain_path :: "host \<Rightarrow> string \<Rightarrow> error + path" where
  "ohos_toolchain_path h compiler_prefix =
     (if compiler_prefix \<noteq> []
      then Inr (joinpath (joinpath (joinpath (Path compiler_prefix) ''build'') ''cmake'')
                  ''ohos.toolchain.cmake'')
      else (let ohos_sdk = environ h ''OHOS_SDK''
            in if py_not ohos_sdk
               then Inl (EnvironmentError ''OHOS_SDK environment variable is not set'')
               else Inr (joinpath (joinpath (joinpath (Path (the ohos_sdk)) ''build'') ''cmake'')
                           ''ohos.toolchain.cmake'')))"

definition ohos_get_config_cmd :: "host \<Rightarrow> string \<Rightarrow> error + string list" where
  "ohos_get_config_cmd h compiler_prefix =
     (case ohos_toolchain_path h compiler_prefix of
        Inl e \<Rightarrow> Inl e
      | Inr cmake_toolchain \<Rightarrow>
          if \<not> path_exists (files h) cmake_toolchain
          then Inl (FileNotFoundError (str_path cmake_toolchain @ '' does not exist''))
          else Inr [''-G'', ''Ninja'',
                    ''-DCMAKE_TOOLCHAIN_FILE='' @ str_path cmake_toolchain,
                    ''-DANDROID_ABI=arm64-v8a'',
                    ''-DANDROID_STL=c++_shared'',
                    ''-DANDROID_PLATFORM=OHOS''])"

definition CMakeOhosBuilder ::
  "host \<Rightarrow> string \<Rightarrow> string \<Rightarrow> process \<Rightarrow> (error + builder) \<times> process" where
  "CMakeOhosBuilder h dir compiler_prefix s =
     (case ohos_get_config_cmd h compiler_prefix of
        Inl e \<Rightarrow> (Inl e, s)
      | Inr extra \<Rightarrow>
          (Inr (CMakeObject CMakeOhosBuilder_class dir
                  (cmake_config_cmd dir @ extra) (cmake_build_cmd dir)), s))"

section \<open>The factory\<close>

text \<open>
  The members of the enumeration \<open>BuilderType\<close> (line 277). Python does not check the
  annotation of \<open>builder_type\<close>, so \<open>create\<close> can receive any value: a \<open>selector\<close> is
  a member, or another value, given by its text. Another value equals no member.
\<close>

datatype BuilderType =
    NDK
  | CMAKE_WINDOWS_VS_MSVC
  | CMAKE_WINDOWS_MINGW
  | CMAKE_CLANG
  | CMAKE_GCC
  | CMAKE_ANDROID
  | CMAKE_OHOS

datatype selector = Member BuilderType | NonMember string

text \<open>The text of a selector in an f-string: \<open>BuilderType.NDK\<close> for the member \<open>NDK\<close>.\<close>

fun member_name :: "BuilderType \<Rightarrow> string" where
  "member_name NDK = ''NDK''"
| "member_name CMAKE_WINDOWS_VS_MSVC = ''CMAKE_WINDOWS_VS_MSVC''"
| "member_name CMAKE_WINDOWS_MINGW = ''CMAKE_WINDOWS_MINGW''"
| "member_name CMAKE_CLANG = ''CMAKE_CLANG''"
| "member_name CMAKE_GCC = ''CMAKE_GCC''"
| "member_name CMAKE_ANDROID = ''CMAKE_ANDROID''"
| "member_name CMAKE_OHOS = ''CMAKE_OHOS''"

fun format_selector :: "selector \<Rightarrow> string" where
  "format_selector (Member m) = ''BuilderType.'' @ member_name m"
| "format_selector (NonMember v) = v"

text \<open>\<open>BuilderFactory.create\<close> (line 317).\<close>

definition create ::
  "host \<Rightarrow> selector \<Rightarrow> string \<Rightarrow> string \<Rightarrow> process \<Rightarrow> (error + builder) \<times> process" where
  "create h builder_type dir compiler_prefix s =
     (if builder_type = Member NDK then NdkBuilder h dir compiler_prefix s
      else if builder_type = Member CMAKE_WINDOWS_VS_MSVC then CMakeWindowsVsMsvcBuilder dir s
      else if builder_type = Member CMAKE_WINDOWS_MINGW
        then CMakeWindowsMingwBuilder h dir compiler_prefix s
      else if builder_type = Member CMAKE_CLANG then CMakeClangBuilder h dir compiler_prefix s
      else if builder_type = Member CMAKE_GCC then CMakeGccBuilder h dir compiler_prefix s
      else if builder_type = Member CMAKE_ANDROID then CMakeAndroidBuilder h dir compiler_prefix s
      else if builder_type = Member CMAKE_OHOS then CMakeOhosBuilder h dir compiler_prefix s
      else (Inl (ValueError (''Invalid builder type: '' @ format_selector builder_type)), s))"

text \<open>
  The member of \<open>BuilderType\<close> that names the class of an object, after the
  docstring of the enumeration (line 278).
\<close>

fun variant_of :: "builder \<Rightarrow> BuilderType" where
  "variant_of (NdkObject d bc) = NDK"
| "variant_of (CMakeObject CMakeWindowsVsMsvcBuilder_class d cc bc) = CMAKE_WINDOWS_VS_MSVC"
| "variant_of (CMakeObject CMakeWindowsMingwBuilder_class d cc bc) = CMAKE_WINDOWS_MINGW"
| "variant_of (CMakeObject CMakeClangBuilder_class d cc bc) = CMAKE_CLANG"
| "variant_of (CMakeObject CMakeGccBuilder_class d cc bc) = CMAKE_GCC"
| "variant_of (CMakeObject CMakeAndroidBuilder_class d cc bc) = CMAKE_ANDROID"
| "variant_of (CMakeObject CMakeOhosBuilder_class d cc bc) = CMAKE_OHOS"

section \<open>Repeated builds\<close>

text \<open>
  The command lines that \<open>build\<close> hands to \<open>run_cmd\<close> for a builder and its options,
  in the order of the calls (lines 102 and 103; lines 113 to 115).
\<close>

fun command_lines :: "builder \<Rightarrow> string list option \<Rightarrow> string list list" where
  "command_lines (NdkObject d bc) build_options = [bc @ or_empty build_options]"
| "command_lines (CMakeObject c d cc bc) build_options = [cc @ or_empty build_options, bc]"

text \<open>
  \<open>n\<close> calls of \<open>build\<close> on one builder, one after the other, with equal options. An
  exception of a call ends the sequence, as it would end the caller.
\<close>

fun build_repeatedly ::
  "system \<Rightarrow> nat \<Rightarrow> string list option \<Rightarrow> builder \<Rightarrow> process
     \<Rightarrow> (error + unit) \<times> builder \<times> process"
where
  "build_repeatedly sys 0 build_options self s = (Inr (), self, s)"
| "build_repeatedly sys (Suc n) build_options self s =
     (case build sys self build_options s of
        (Inl e, self', s') \<Rightarrow> (Inl e, self', s')
      | (Inr u, self', s') \<Rightarrow> build_repeatedly sys n build_options self' s')"

section \<open>The command runner: exit status, output, termination\<close>

lemma run_cmd_issued: "issued (snd (run_cmd sys args s)) = issued s @ [args]"
  by (simp add: run_cmd_def Let_def split: child.split)

text \<open>
  Claim C4, as amended. For every command line \<open>args\<close>: when the child exits with
  status zero, \<open>run_cmd\<close> prints its captured output and returns; when it exits with
  another status, \<open>run_cmd\<close> prints the command line, joined by spaces, and the
  captured error stream, and then leaves by \<open>sys.exit(1)\<close>; when the child cannot be
  started, the exception of the launch leaves \<open>run_cmd\<close> as it is, nothing is printed
  and \<open>sys.exit\<close> is not called. In each case the command line is the one command
  issued.
\<close>

theorem run_cmd_outcomes:
  "(\<forall>out err. sys (issued s @ [args]) = Completed 0 out err \<longrightarrow>
      run_cmd sys args s =
        (Inr (), s\<lparr>issued := issued s @ [args], printed := printed s @ [out]\<rparr>))
   \<and> (\<forall>returncode out err.
        sys (issued s @ [args]) = Completed returncode out err \<and> returncode \<noteq> 0 \<longrightarrow>
          run_cmd sys args s =
            (Inl (SystemExit 1),
             s\<lparr>issued := issued s @ [args],
               printed := printed s @
                 [msg_command_failed @ join '' '' args, msg_error_output @ err]\<rparr>))
   \<and> (\<forall>msg. sys (issued s @ [args]) = NotLaunched msg \<longrightarrow>
          run_cmd sys args s = (Inl (ChildLaunchError msg), s\<lparr>issued := issued s @ [args]\<rparr>))"
  by (simp add: run_cmd_def Let_def)

text \<open>
  The three cases at concrete children; the first is the scenario of the
  specification, a child that exits with status 1 after writing "toolchain error".
\<close>

theorem run_cmd_outcomes_witness:
  "run_cmd (\<lambda>log. Completed 1 [] ''toolchain error'') [''cmake'', ''--build'', ''out'']
      \<lparr>issued = [], printed = []\<rparr>
    = (Inl (SystemExit 1),
       \<lparr>issued = [[''cmake'', ''--build'', ''out'']],
        printed = [msg_command_failed @ ''cmake --build out'',
                   msg_error_output @ ''toolchain error'']\<rparr>)
   \<and> run_cmd (\<lambda>log. Completed 0 ''done'' []) [''cmake'', ''--build'', ''out'']
      \<lparr>issued = [], printed = []\<rparr>
    = (Inr (), \<lparr>issued = [[''cmake'', ''--build'', ''out'']], printed = [''done'']\<rparr>)
   \<and> run_cmd (\<lambda>log. NotLaunched ''No such file or directory: cmake'')
        [''cmake'', ''--build'', ''out''] \<lparr>issued = [], printed = []\<rparr>
    = (Inl (ChildLaunchError ''No such file or directory: cmake''),
       \<lparr>issued = [[''cmake'', ''--build'', ''out'']], printed = []\<rparr>)"
  using
    run_cmd_outcomes [of "\<lambda>log. Completed 1 [] ''toolchain error''"
      "\<lparr>issued = [], printed = []\<rparr>" "[''cmake'', ''--build'', ''out'']"]
    run_cmd_outcomes [of "\<lambda>log. Completed 0 ''done'' []"
      "\<lparr>issued = [], printed = []\<rparr>" "[''cmake'', ''--build'', ''out'']"]
    run_cmd_outcomes [of "\<lambda>log. NotLaunched ''No such file or directory: cmake''"
      "\<lparr>issued = [], printed = []\<rparr>" "[''cmake'', ''--build'', ''out'']"]
  by simp

text \<open>
  Claim C4 as stated fails when the child cannot be started (\<open>cmake\<close> is not
  installed): \<open>run_cmd\<close> prints neither the command line nor an error stream, and
  the exception that leaves it is the launch error, not \<open>SystemExit\<close>.
\<close>

theorem run_cmd_launch_failure_counterexample:
  "run_cmd (\<lambda>log. NotLaunched ''No such file or directory: cmake'')
        [''cmake'', ''-B'', ''out''] \<lparr>issued = [], printed = []\<rparr>
    = (Inl (ChildLaunchError ''No such file or directory: cmake''),
       \<lparr>issued = [[''cmake'', ''-B'', ''out'']], printed = []\<rparr>)"
  by (simp add: run_cmd_def)

section \<open>CMake builders: the commands of a build\<close>

text \<open>
  Claim C1, as amended. For a builder of any CMake class (MSVC, MinGW, Clang, GCC,
  Android, OHOS) and every options list, \<open>build\<close> first issues the configure command
  with the options appended at its end. When that child exits with status zero, the
  second and last command issued is the build command, with no option of the caller.
  When the configure child exits with another status or cannot be started, the
  configure command is the only command issued: the exception of \<open>run_cmd\<close> ends the
  call before the build command.
\<close>

theorem cmake_build_commands:
  assumes "build sys (CMakeObject c d cc bc) build_options s = (r, self', s')"
  shows "case sys (issued s @ [cc @ or_empty build_options]) of
           Completed returncode out err \<Rightarrow>
             if returncode = 0
             then issued s' = issued s @ [cc @ or_empty build_options, bc]
             else issued s' = issued s @ [cc @ or_empty build_options] \<and> r = Inl (SystemExit 1)
         | NotLaunched msg \<Rightarrow>
             issued s' = issued s @ [cc @ or_empty build_options] \<and> r = Inl (ChildLaunchError msg)"
proof (cases "sys (issued s @ [cc @ or_empty build_options])")
  case (Completed returncode out err)
  show ?thesis
  proof (cases "returncode = 0")
    case True
    with Completed have first:
      "run_cmd sys (cc @ or_empty build_options) s =
         (Inr (), s\<lparr>issued := issued s @ [cc @ or_empty build_options],
                    printed := printed s @ [out]\<rparr>)"
      by (simp add: run_cmd_def)
    from assms first have "s' = snd (run_cmd sys bc
        (s\<lparr>issued := issued s @ [cc @ or_empty build_options], printed := printed s @ [out]\<rparr>))"
      by (simp add: Let_def split: prod.splits)
    then have "issued s' = issued s @ [cc @ or_empty build_options, bc]"
      by (simp add: run_cmd_issued)
    with Completed True show ?thesis by simp
  next
    case False
    with Completed assms show ?thesis
      by (auto simp add: run_cmd_def Let_def)
  qed
next
  case (NotLaunched msg)
  with assms show ?thesis
    by (auto simp add: run_cmd_def Let_def)
qed

text \<open>A Visual Studio builder whose two children succeed issues both commands.\<close>

theorem cmake_build_commands_witness:
  "issued (snd (snd (build (\<lambda>log. Completed 0 ''ok'' [])
      (CMakeObject CMakeWindowsVsMsvcBuilder_class ''out''
         [''cmake'', ''-B'', ''out'', ''-G'', ''Visual Studio 17 2022'']
         [''cmake'', ''--build'', ''out''])
      (Some [''-DCMAKE_BUILD_TYPE=Release'']) \<lparr>issued = [], printed = []\<rparr>)))
   = [[''cmake'', ''-B'', ''out'', ''-G'', ''Visual Studio 17 2022'', ''-DCMAKE_BUILD_TYPE=Release''],
      [''cmake'', ''--build'', ''out'']]"
proof -
  obtain r self' s' where run:
    "build (\<lambda>log. Completed 0 ''ok'' [])
      (CMakeObject CMakeWindowsVsMsvcBuilder_class ''out''
         [''cmake'', ''-B'', ''out'', ''-G'', ''Visual Studio 17 2022'']
         [''cmake'', ''--build'', ''out''])
      (Some [''-DCMAKE_BUILD_TYPE=Release'']) \<lparr>issued = [], printed = []\<rparr> = (r, self', s')"
    using prod_cases3 by blast
  from cmake_build_commands [OF run] have
    "issued s' = [[''cmake'', ''-B'', ''out'', ''-G'', ''Visual Studio 17 2022'',
                   ''-DCMAKE_BUILD_TYPE=Release''], [''cmake'', ''--build'', ''out'']]"
    by (simp add: or_empty_def)
  with run show ?thesis by simp
qed

text \<open>
  Claim C1 as stated fails when the configure child exits with status 1: one command
  is issued, not two, and the call ends in \<open>SystemExit\<close>.
\<close>

theorem cmake_build_stops_counterexample:
  "build (\<lambda>log. Completed 1 [] ''CMake Error'')
      (CMakeObject CMakeWindowsVsMsvcBuilder_class ''out''
         [''cmake'', ''-B'', ''out'', ''-G'', ''Visual Studio 17 2022'']
         [''cmake'', ''--build'', ''out''])
      None \<lparr>issued = [], printed = []\<rparr>
   = (Inl (SystemExit 1),
      CMakeObject CMakeWindowsVsMsvcBuilder_class ''out''
         [''cmake'', ''-B'', ''out'', ''-G'', ''Visual Studio 17 2022'']
         [''cmake'', ''--build'', ''out''],
      \<lparr>issued = [[''cmake'', ''-B'', ''out'', ''-G'', ''Visual Studio 17 2022'']],
       printed = [msg_command_failed @ ''cmake -B out -G Visual Studio 17 2022'',
                  msg_error_output @ ''CMake Error'']\<rparr>)"
  by (simp add: run_cmd_def or_empty_def Let_def)

section \<open>The NDK builder: the command of a build\<close>

lemma NdkBuilder_Inr:
  assumes "NdkBuilder h dir compiler_prefix s0 = (Inr self, s1)"
  shows "\<exists>compiler_path. ndk_compiler_path h compiler_prefix = Inr compiler_path \<and>
           path_exists (files h) compiler_path \<and> s1 = s0 \<and>
           self = NdkObject dir
             [str_path compiler_path, ''V=1'', ''NDK_OUT='' @ dir, ''NDK_LIBS_OUT='' @ dir]"
  using assms
  by (auto simp add: NdkBuilder_def get_ndk_build_command_def split: sum.splits if_splits)

lemma ndk_build_issued:
  "issued (snd (snd (build sys (NdkObject d bc) build_options s))) =
     issued s @ [bc @ or_empty build_options]"
  by (simp add: Let_def run_cmd_issued split: prod.splits)
    (metis run_cmd_issued snd_conv)

text \<open>
  Claim C2. For an NDK builder that was constructed, \<open>build\<close> issues exactly one
  command: the text of the resolved \<open>ndk-build\<close> path, then \<open>V=1\<close>, \<open>NDK_OUT=\<close>
  and \<open>NDK_LIBS_OUT=\<close> with the build directory, then the options. In particular,
  on a POSIX host (the paths of the scenario are POSIX paths) with
  \<open>ANDROID_NDK=/opt/ndk\<close> and an existing \<open>/opt/ndk/ndk-build\<close>, the builder for
  \<open>/tmp/out\<close>, constructed with no prefix, issues for the option
  \<open>NDK_APPLICATION_MK=Application.mk\<close> the command of the scenario.
\<close>

theorem ndk_build_one_command:
  "(NdkBuilder h dir compiler_prefix s0 = (Inr self, s1) \<longrightarrow>
      (\<exists>compiler_path.
         ndk_compiler_path h compiler_prefix = Inr compiler_path \<and>
         issued (snd (snd (build sys self build_options s))) =
           issued s @
             [[str_path compiler_path, ''V=1'', ''NDK_OUT='' @ dir, ''NDK_LIBS_OUT='' @ dir]
              @ or_empty build_options]))
   \<and> (platform h \<noteq> ''win32'' \<and> environ h ''ANDROID_NDK'' = Some ''/opt/ndk'' \<and>
        exists_str (files h) ''/opt/ndk/ndk-build'' \<longrightarrow>
      (\<exists>ndk. NdkBuilder h ''/tmp/out'' [] s0 = (Inr ndk, s0) \<and>
         issued (snd (snd (build sys ndk (Some [''NDK_APPLICATION_MK=Application.mk'']) s))) =
           issued s @
             [[''/opt/ndk/ndk-build'', ''V=1'', ''NDK_OUT=/tmp/out'', ''NDK_LIBS_OUT=/tmp/out'',
               ''NDK_APPLICATION_MK=Application.mk'']]))"
proof (intro conjI impI)
  assume "NdkBuilder h dir compiler_prefix s0 = (Inr self, s1)"
  then obtain compiler_path where
    p: "ndk_compiler_path h compiler_prefix = Inr compiler_path" and
    self: "self = NdkObject dir
             [str_path compiler_path, ''V=1'', ''NDK_OUT='' @ dir, ''NDK_LIBS_OUT='' @ dir]"
    using NdkBuilder_Inr by blast
  show "\<exists>compiler_path.
         ndk_compiler_path h compiler_prefix = Inr compiler_path \<and>
         issued (snd (snd (build sys self build_options s))) =
           issued s @
             [[str_path compiler_path, ''V=1'', ''NDK_OUT='' @ dir, ''NDK_LIBS_OUT='' @ dir]
              @ or_empty build_options]"
    using p unfolding self ndk_build_issued by simp
next
  assume scenario: "platform h \<noteq> ''win32'' \<and> environ h ''ANDROID_NDK'' = Some ''/opt/ndk'' \<and>
        exists_str (files h) ''/opt/ndk/ndk-build''"
  have path: "ndk_compiler_path h [] = Inr (PurePath ''/'' [''opt'', ''ndk'', ''ndk-build''])"
    using scenario
    by (simp add: ndk_compiler_path_def py_not_def joinpath_def Path_def splitroot_def)
  have str: "str_path (PurePath ''/'' [''opt'', ''ndk'', ''ndk-build'']) = ''/opt/ndk/ndk-build''"
    by (simp add: str_path_def)
  have made: "NdkBuilder h ''/tmp/out'' [] s0 =
      (Inr (NdkObject ''/tmp/out''
         [''/opt/ndk/ndk-build'', ''V=1'', ''NDK_OUT=/tmp/out'', ''NDK_LIBS_OUT=/tmp/out'']), s0)"
    using scenario
    by (simp add: NdkBuilder_def get_ndk_build_command_def path path_exists_def str)
  show "\<exists>ndk. NdkBuilder h ''/tmp/out'' [] s0 = (Inr ndk, s0) \<and>
         issued (snd (snd (build sys ndk (Some [''NDK_APPLICATION_MK=Application.mk'']) s))) =
           issued s @
             [[''/opt/ndk/ndk-build'', ''V=1'', ''NDK_OUT=/tmp/out'', ''NDK_LIBS_OUT=/tmp/out'',
               ''NDK_APPLICATION_MK=Application.mk'']]"
    unfolding made by (simp add: ndk_build_issued or_empty_def del: build.simps)
qed

text \<open>
  The scenario on a Linux host holding just the file \<open>/opt/ndk/ndk-build\<close>, with a
  child that exits with status 2: the one command of the scenario is issued.
\<close>

theorem ndk_build_one_command_witness:
  "(\<exists>ndk. NdkBuilder
       \<lparr>platform = ''linux'', environ = [''ANDROID_NDK'' \<mapsto> ''/opt/ndk''],
        files = \<lparr>entries = [(''/opt/ndk/ndk-build'', RegularFile)], undeletable = []\<rparr>\<rparr>
       ''/tmp/out'' [] \<lparr>issued = [], printed = []\<rparr> = (Inr ndk, \<lparr>issued = [], printed = []\<rparr>) \<and>
     issued (snd (snd (build (\<lambda>log. Completed 2 [] ''make: error'') ndk
        (Some [''NDK_APPLICATION_MK=Application.mk'']) \<lparr>issued = [], printed = []\<rparr>))) =
       [[''/opt/ndk/ndk-build'', ''V=1'', ''NDK_OUT=/tmp/out'', ''NDK_LIBS_OUT=/tmp/out'',
         ''NDK_APPLICATION_MK=Application.mk'']])"
  using ndk_build_one_command [of
      "\<lparr>platform = ''linux'', environ = [''ANDROID_NDK'' \<mapsto> ''/opt/ndk''],
        files = \<lparr>entries = [(''/opt/ndk/ndk-build'', RegularFile)], undeletable = []\<rparr>\<rparr>"
      "''/tmp/out''" "[]" "\<lparr>issued = [], printed = []\<rparr>" _ _
      "\<lambda>log. Completed 2 [] ''make: error''" _ "\<lparr>issued = [], printed = []\<rparr>"]
  by (simp add: exists_str_def)

section \<open>Resolution of the toolchain path from a prefix\<close>










section \<open>Errors of construction\<close>

text \<open>
  Claim C6. Constructed with no prefix on a host where the variant's environment
  variable is unset or empty, each variant that needs one (NDK: \<open>ANDROID_NDK\<close>,
  MinGW: \<open>MinGW\<close>, Clang: \<open>LLVM\<close>, GCC: \<open>GCC\<close>, OHOS: \<open>OHOS_SDK\<close>, and Android:
  \<open>ANDROID_NDK\<close>) raises \<open>EnvironmentError\<close> with a message that starts with the
  variable's name. The constructor raises it, whatever the files of the host, and
  returns the process as it found it: no command is issued, nothing is printed.
\<close>

theorem missing_environment_variable:
  "(environ h ''ANDROID_NDK'' = None \<or> environ h ''ANDROID_NDK'' = Some [] \<longrightarrow>
      NdkBuilder h dir [] s =
        (Inl (EnvironmentError ''ANDROID_NDK environment variable is not set''), s))
   \<and> (environ h ''MinGW'' = None \<or> environ h ''MinGW'' = Some [] \<longrightarrow>
      CMakeWindowsMingwBuilder h dir [] s =
        (Inl (EnvironmentError ''MinGW environment variable is not set''), s))
   \<and> (environ h ''LLVM'' = None \<or> environ h ''LLVM'' = Some [] \<longrightarrow>
      CMakeClangBuilder h dir [] s =
        (Inl (EnvironmentError ''LLVM environment variable is not set''), s))
   \<and> (environ h ''GCC'' = None \<or> environ h ''GCC'' = Some [] \<longrightarrow>
      CMakeGccBuilder h dir [] s =
        (Inl (EnvironmentError ''GCC environment variable is not set''), s))
   \<and> (environ h ''OHOS_SDK'' = None \<or> environ h ''OHOS_SDK'' = Some [] \<longrightarrow>
      CMakeOhosBuilder h dir [] s =
        (Inl (EnvironmentError ''OHOS_SDK environment variable is not set''), s))
   \<and> (environ h ''ANDROID_NDK'' = None \<or> environ h ''ANDROID_NDK'' = Some [] \<longrightarrow>
      CMakeAndroidBuilder h dir [] s =
        (Inl (EnvironmentError ''ANDROID_NDK environment variable is not set''), s))"
proof (intro conjI impI)
  assume "environ h ''ANDROID_NDK'' = None \<or> environ h ''ANDROID_NDK'' = Some []"
  then have unset: "py_not (environ h ''ANDROID_NDK'')" by (simp add: py_not_def)
  show "NdkBuilder h dir [] s =
        (Inl (EnvironmentError ''ANDROID_NDK environment variable is not set''), s)"
    using unset by (simp add: NdkBuilder_def get_ndk_build_command_def ndk_compiler_path_def)
  show "CMakeAndroidBuilder h dir [] s =
        (Inl (EnvironmentError ''ANDROID_NDK environment variable is not set''), s)"
    using unset
    by (simp add: CMakeAndroidBuilder_def android_get_config_cmd_def android_toolchain_path_def)
next
  assume "environ h ''MinGW'' = None \<or> environ h ''MinGW'' = Some []"
  then have "py_not (environ h ''MinGW'')" by (simp add: py_not_def)
  then show "CMakeWindowsMingwBuilder h dir [] s =
        (Inl (EnvironmentError ''MinGW environment variable is not set''), s)"
    by (simp add: CMakeWindowsMingwBuilder_def mingw_get_config_cmd_def mingw_make_path_def)
next
  assume "environ h ''LLVM'' = None \<or> environ h ''LLVM'' = Some []"
  then have "py_not (environ h ''LLVM'')" by (simp add: py_not_def)
  then show "CMakeClangBuilder h dir [] s =
        (Inl (EnvironmentError ''LLVM environment variable is not set''), s)"
    by (simp add: CMakeClangBuilder_def clang_get_config_cmd_def clang_compiler_paths_def)
next
  assume "environ h ''GCC'' = None \<or> environ h ''GCC'' = Some []"
  then have "py_not (environ h ''GCC'')" by (simp add: py_not_def)
  then show "CMakeGccBuilder h dir [] s =
        (Inl (EnvironmentError ''GCC environment variable is not set''), s)"
    by (simp add: CMakeGccBuilder_def gcc_get_config_cmd_def gcc_compiler_paths_def)
next
  assume "environ h ''OHOS_SDK'' = None \<or> environ h ''OHOS_SDK'' = Some []"
  then have "py_not (environ h ''OHOS_SDK'')" by (simp add: py_not_def)
  then show "CMakeOhosBuilder h dir [] s =
        (Inl (EnvironmentError ''OHOS_SDK environment variable is not set''), s)"
    by (simp add: CMakeOhosBuilder_def ohos_get_config_cmd_def ohos_toolchain_path_def)
qed

text \<open>
  Hosts where the variable is unset, the first after a command has been issued, and
  for Clang a host where \<open>LLVM\<close> is set to the empty string.
\<close>

theorem missing_environment_variable_witness:
  "NdkBuilder \<lparr>platform = ''linux'', environ = Map.empty,
       files = \<lparr>entries = [(''/opt/ndk/ndk-build'', RegularFile)], undeletable = []\<rparr>\<rparr>
     ''out'' [] \<lparr>issued = [[''cmake'', ''--version'']], printed = [''3.28'']\<rparr>
    = (Inl (EnvironmentError ''ANDROID_NDK environment variable is not set''),
       \<lparr>issued = [[''cmake'', ''--version'']], printed = [''3.28'']\<rparr>)
   \<and> CMakeWindowsMingwBuilder \<lparr>platform = ''win32'', environ = Map.empty,
       files = \<lparr>entries = [], undeletable = []\<rparr>\<rparr> ''out'' [] \<lparr>issued = [], printed = []\<rparr>
    = (Inl (EnvironmentError ''MinGW environment variable is not set''),
       \<lparr>issued = [], printed = []\<rparr>)
   \<and> CMakeClangBuilder \<lparr>platform = ''linux'', environ = [''LLVM'' \<mapsto> []],
       files = \<lparr>entries = [], undeletable = []\<rparr>\<rparr> ''out'' [] \<lparr>issued = [], printed = []\<rparr>
    = (Inl (EnvironmentError ''LLVM environment variable is not set''),
       \<lparr>issued = [], printed = []\<rparr>)
   \<and> CMakeGccBuilder \<lparr>platform = ''linux'', environ = [''LLVM'' \<mapsto> []],
       files = \<lparr>entries = [], undeletable = []\<rparr>\<rparr> ''out'' [] \<lparr>issued = [], printed = []\<rparr>
    = (Inl (EnvironmentError ''GCC environment variable is not set''),
       \<lparr>issued = [], printed = []\<rparr>)
   \<and> CMakeOhosBuilder \<lparr>platform = ''linux'', environ = Map.empty,
       files = \<lparr>entries = [], undeletable = []\<rparr>\<rparr> ''out'' [] \<lparr>issued = [], printed = []\<rparr>
    = (Inl (EnvironmentError ''OHOS_SDK environment variable is not set''),
       \<lparr>issued = [], printed = []\<rparr>)"
  using
    missing_environment_variable [of
      "\<lparr>platform = ''linux'', environ = Map.empty,
        files = \<lparr>entries = [(''/opt/ndk/ndk-build'', RegularFile)], undeletable = []\<rparr>\<rparr>"
      "''out''" "\<lparr>issued = [[''cmake'', ''--version'']], printed = [''3.28'']\<rparr>"]
    missing_environment_variable [of
      "\<lparr>platform = ''win32'', environ = Map.empty, files = \<lparr>entries = [], undeletable = []\<rparr>\<rparr>"
      "''out''" "\<lparr>issued = [], printed = []\<rparr>"]
    missing_environment_variable [of
      "\<lparr>platform = ''linux'', environ = [''LLVM'' \<mapsto> []],
        files = \<lparr>entries = [], undeletable = []\<rparr>\<rparr>"
      "''out''" "\<lparr>issued = [], printed = []\<rparr>"]
    missing_environment_variable [of
      "\<lparr>platform = ''linux'', environ = Map.empty, files = \<lparr>entries = [], undeletable = []\<rparr>\<rparr>"
      "''out''" "\<lparr>issued = [], printed = []\<rparr>"]
  by simp

text \<open>
  Claim C7. For each variant that resolves a toolchain path (from the prefix or from
  the environment variable): when the resolved path does not exist on the host,
  construction raises \<open>FileNotFoundError\<close> with the text of that very path followed
  by "does not exist"; for Clang and GCC, which resolve two paths, the path named is
  the first of the two that does not exist. The process is returned as it was found:
  no command is issued.
\<close>

theorem missing_toolchain_path:
  "(ndk_compiler_path h compiler_prefix = Inr compiler_path \<and>
      \<not> path_exists (files h) compiler_path \<longrightarrow>
        NdkBuilder h dir compiler_prefix s =
          (Inl (FileNotFoundError (str_path compiler_path @ '' does not exist'')), s))
   \<and> (mingw_make_path h compiler_prefix = Inr make_path \<and>
      \<not> path_exists (files h) make_path \<longrightarrow>
        CMakeWindowsMingwBuilder h dir compiler_prefix s =
          (Inl (FileNotFoundError (str_path make_path @ '' does not exist'')), s))
   \<and> (clang_compiler_paths h compiler_prefix = Inr (clang_c, clang_cpp) \<and>
      (\<not> path_exists (files h) clang_c \<or> \<not> path_exists (files h) clang_cpp) \<longrightarrow>
        CMakeClangBuilder h dir compiler_prefix s =
          (Inl (FileNotFoundError
                  (str_path (if \<not> path_exists (files h) clang_c then clang_c else clang_cpp)
                   @ '' does not exist'')), s))
   \<and> (gcc_compiler_paths h compiler_prefix = Inr (gcc_c, gcc_cpp) \<and>
      (\<not> path_exists (files h) gcc_c \<or> \<not> path_exists (files h) gcc_cpp) \<longrightarrow>
        CMakeGccBuilder h dir compiler_prefix s =
          (Inl (FileNotFoundError
                  (str_path (if \<not> path_exists (files h) gcc_c then gcc_c else gcc_cpp)
                   @ '' does not exist'')), s))
   \<and> (android_toolchain_path h compiler_prefix = Inr android_toolchain \<and>
      \<not> path_exists (files h) android_toolchain \<longrightarrow>
        CMakeAndroidBuilder h dir compiler_prefix s =
          (Inl (FileNotFoundError (str_path android_toolchain @ '' does not exist'')), s))
   \<and> (ohos_toolchain_path h compiler_prefix = Inr ohos_toolchain \<and>
      \<not> path_exists (files h) ohos_toolchain \<longrightarrow>
        CMakeOhosBuilder h dir compiler_prefix s =
          (Inl (FileNotFoundError (str_path ohos_toolchain @ '' does not exist'')), s))"
proof (intro conjI impI)
  assume "ndk_compiler_path h compiler_prefix = Inr compiler_path \<and>
      \<not> path_exists (files h) compiler_path"
  then show "NdkBuilder h dir compiler_prefix s =
          (Inl (FileNotFoundError (str_path compiler_path @ '' does not exist'')), s)"
    by (simp add: NdkBuilder_def get_ndk_build_command_def)
next
  assume "mingw_make_path h compiler_prefix = Inr make_path \<and>
      \<not> path_exists (files h) make_path"
  then show "CMakeWindowsMingwBuilder h dir compiler_prefix s =
          (Inl (FileNotFoundError (str_path make_path @ '' does not exist'')), s)"
    by (simp add: CMakeWindowsMingwBuilder_def mingw_get_config_cmd_def)
next
  assume "clang_compiler_paths h compiler_prefix = Inr (clang_c, clang_cpp) \<and>
      (\<not> path_exists (files h) clang_c \<or> \<not> path_exists (files h) clang_cpp)"
  then show "CMakeClangBuilder h dir compiler_prefix s =
          (Inl (FileNotFoundError
                  (str_path (if \<not> path_exists (files h) clang_c then clang_c else clang_cpp)
                   @ '' does not exist'')), s)"
    by (auto simp add: CMakeClangBuilder_def clang_get_config_cmd_def ninja_compilers_def)
next
  assume "gcc_compiler_paths h compiler_prefix = Inr (gcc_c, gcc_cpp) \<and>
      (\<not> path_exists (files h) gcc_c \<or> \<not> path_exists (files h) gcc_cpp)"
  then show "CMakeGccBuilder h dir compiler_prefix s =
          (Inl (FileNotFoundError
                  (str_path (if \<not> path_exists (files h) gcc_c then gcc_c else gcc_cpp)
                   @ '' does not exist'')), s)"
    by (auto simp add: CMakeGccBuilder_def gcc_get_config_cmd_def ninja_compilers_def)
next
  assume "android_toolchain_path h compiler_prefix = Inr android_toolchain \<and>
      \<not> path_exists (files h) android_toolchain"
  then show "CMakeAndroidBuilder h dir compiler_prefix s =
          (Inl (FileNotFoundError (str_path android_toolchain @ '' does not exist'')), s)"
    by (simp add: CMakeAndroidBuilder_def android_get_config_cmd_def)
next
  assume "ohos_toolchain_path h compiler_prefix = Inr ohos_toolchain \<and>
      \<not> path_exists (files h) ohos_toolchain"
  then show "CMakeOhosBuilder h dir compiler_prefix s =
          (Inl (FileNotFoundError (str_path ohos_toolchain @ '' does not exist'')), s)"
    by (simp add: CMakeOhosBuilder_def ohos_get_config_cmd_def)
qed

text \<open>
  A Linux host without files and the prefix \<open>/no/such/prefix\<close>: each of the six
  variants names its own path. Then a host where \<open>LLVM\<close> is \<open>/opt/llvm\<close> and only
  \<open>clang\<close> is installed: the path named is that of \<open>clang++\<close>.
\<close>

theorem missing_toolchain_path_witness:
  "NdkBuilder \<lparr>platform = ''linux'', environ = Map.empty,
       files = \<lparr>entries = [], undeletable = []\<rparr>\<rparr> ''out'' ''/no/such/prefix''
       \<lparr>issued = [], printed = []\<rparr>
     = (Inl (FileNotFoundError ''/no/such/prefix/ndk-build does not exist''),
        \<lparr>issued = [], printed = []\<rparr>)
   \<and> CMakeWindowsMingwBuilder \<lparr>platform = ''linux'', environ = Map.empty,
       files = \<lparr>entries = [], undeletable = []\<rparr>\<rparr> ''out'' ''/no/such/prefix''
       \<lparr>issued = [], printed = []\<rparr>
     = (Inl (FileNotFoundError ''/no/such/prefix/mingw32-make.exe does not exist''),
        \<lparr>issued = [], printed = []\<rparr>)
   \<and> CMakeClangBuilder \<lparr>platform = ''linux'', environ = Map.empty,
       files = \<lparr>entries = [], undeletable = []\<rparr>\<rparr> ''out'' ''/no/such/prefix''
       \<lparr>issued = [], printed = []\<rparr>
     = (Inl (FileNotFoundError ''/no/such/prefixclang does not exist''),
        \<lparr>issued = [], printed = []\<rparr>)
   \<and> CMakeGccBuilder \<lparr>platform = ''linux'', environ = Map.empty,
       files = \<lparr>entries = [], undeletable = []\<rparr>\<rparr> ''out'' ''/no/such/prefix''
       \<lparr>issued = [], printed = []\<rparr>
     = (Inl (FileNotFoundError ''/no/such/prefixgcc does not exist''),
        \<lparr>issued = [], printed = []\<rparr>)
   \<and> CMakeAndroidBuilder \<lparr>platform = ''linux'', environ = Map.empty,
       files = \<lparr>entries = [], undeletable = []\<rparr>\<rparr> ''out'' ''/no/such/prefix''
       \<lparr>issued = [], printed = []\<rparr>
     = (Inl (FileNotFoundError
               ''/no/such/prefix/build/cmake/android.toolchain.cmake does not exist''),
        \<lparr>issued = [], printed = []\<rparr>)
   \<and> CMakeOhosBuilder \<lparr>platform = ''linux'', environ = Map.empty,
       files = \<lparr>entries = [], undeletable = []\<rparr>\<rparr> ''out'' ''/no/such/prefix''
       \<lparr>issued = [], printed = []\<rparr>
     = (Inl (FileNotFoundError
               ''/no/such/prefix/build/cmake/ohos.toolchain.cmake does not exist''),
        \<lparr>issued = [], printed = []\<rparr>)
   \<and> CMakeClangBuilder \<lparr>platform = ''linux'', environ = [''LLVM'' \<mapsto> ''/opt/llvm''],
       files = \<lparr>entries = [(''/opt/llvm/bin/clang'', RegularFile)], undeletable = []\<rparr>\<rparr>
       ''out'' [] \<lparr>issued = [], printed = []\<rparr>
     = (Inl (FileNotFoundError ''/opt/llvm/bin/clang++ does not exist''),
        \<lparr>issued = [], printed = []\<rparr>)"
  using
    missing_toolchain_path [where
      h = "\<lparr>platform = ''linux'', environ = Map.empty,
             files = \<lparr>entries = [], undeletable = []\<rparr>\<rparr>"
      and compiler_prefix = "''/no/such/prefix''" and dir = "''out''"
      and s = "\<lparr>issued = [], printed = []\<rparr>"
      and compiler_path = "PurePath ''/'' [''no'', ''such'', ''prefix'', ''ndk-build'']"
      and make_path = "PurePath ''/'' [''no'', ''such'', ''prefix'', ''mingw32-make.exe'']"
      and clang_c = "PurePath ''/'' [''no'', ''such'', ''prefixclang'']"
      and clang_cpp = "PurePath ''/'' [''no'', ''such'', ''prefixclang++'']"
      and gcc_c = "PurePath ''/'' [''no'', ''such'', ''prefixgcc'']"
      and gcc_cpp = "PurePath ''/'' [''no'', ''such'', ''prefixg++'']"
      and android_toolchain =
        "PurePath ''/'' [''no'', ''such'', ''prefix'', ''build'', ''cmake'', ''android.toolchain.cmake'']"
      and ohos_toolchain =
        "PurePath ''/'' [''no'', ''such'', ''prefix'', ''build'', ''cmake'', ''ohos.toolchain.cmake'']"]
    missing_toolchain_path [where
      h = "\<lparr>platform = ''linux'', environ = [''LLVM'' \<mapsto> ''/opt/llvm''],
             files = \<lparr>entries = [(''/opt/llvm/bin/clang'', RegularFile)], undeletable = []\<rparr>\<rparr>"
      and compiler_prefix = "[]" and dir = "''out''"
      and s = "\<lparr>issued = [], printed = []\<rparr>"
      and clang_c = "PurePath ''/'' [''opt'', ''llvm'', ''bin'', ''clang'']"
      and clang_cpp = "PurePath ''/'' [''opt'', ''llvm'', ''bin'', ''clang++'']"]
  by (simp add: ndk_compiler_path_def mingw_make_path_def clang_compiler_paths_def
      gcc_compiler_paths_def android_toolchain_path_def ohos_toolchain_path_def py_not_def
      path_exists_def exists_str_def str_path_def joinpath_def Path_def splitroot_def)

section \<open>The factory: dispatch on the selector\<close>

lemma constructed_variants:
  "NdkBuilder h dir p s = (Inr b, s') \<Longrightarrow> variant_of b = NDK \<and> build_dir b = dir"
  "CMakeWindowsVsMsvcBuilder dir s = (Inr b, s') \<Longrightarrow>
     variant_of b = CMAKE_WINDOWS_VS_MSVC \<and> build_dir b = dir"
  "CMakeWindowsMingwBuilder h dir p s = (Inr b, s') \<Longrightarrow>
     variant_of b = CMAKE_WINDOWS_MINGW \<and> build_dir b = dir"
  "CMakeClangBuilder h dir p s = (Inr b, s') \<Longrightarrow> variant_of b = CMAKE_CLANG \<and> build_dir b = dir"
  "CMakeGccBuilder h dir p s = (Inr b, s') \<Longrightarrow> variant_of b = CMAKE_GCC \<and> build_dir b = dir"
  "CMakeAndroidBuilder h dir p s = (Inr b, s') \<Longrightarrow>
     variant_of b = CMAKE_ANDROID \<and> build_dir b = dir"
  "CMakeOhosBuilder h dir p s = (Inr b, s') \<Longrightarrow> variant_of b = CMAKE_OHOS \<and> build_dir b = dir"
  by (auto simp add: NdkBuilder_def CMakeWindowsVsMsvcBuilder_def CMakeWindowsMingwBuilder_def
      CMakeClangBuilder_def CMakeGccBuilder_def CMakeAndroidBuilder_def CMakeOhosBuilder_def
      split: sum.splits)

text \<open>
  Claim C8. For each member of the enumeration, \<open>create\<close> is the constructor of the
  corresponding class, with the build directory and, except for MSVC, the prefix
  passed on; so a builder that \<open>create\<close> returns for a member is of that member's
  variant, for the given build directory. For a selector that is no member,
  \<open>create\<close> raises \<open>ValueError\<close> with the selector's text, on every host and for
  every directory and prefix, and returns the process as it found it: no constructor
  has run.
\<close>

theorem create_dispatch:
  "create h (Member NDK) dir compiler_prefix s = NdkBuilder h dir compiler_prefix s
   \<and> create h (Member CMAKE_WINDOWS_VS_MSVC) dir compiler_prefix s =
       CMakeWindowsVsMsvcBuilder dir s
   \<and> create h (Member CMAKE_WINDOWS_MINGW) dir compiler_prefix s =
       CMakeWindowsMingwBuilder h dir compiler_prefix s
   \<and> create h (Member CMAKE_CLANG) dir compiler_prefix s =
       CMakeClangBuilder h dir compiler_prefix s
   \<and> create h (Member CMAKE_GCC) dir compiler_prefix s = CMakeGccBuilder h dir compiler_prefix s
   \<and> create h (Member CMAKE_ANDROID) dir compiler_prefix s =
       CMakeAndroidBuilder h dir compiler_prefix s
   \<and> create h (Member CMAKE_OHOS) dir compiler_prefix s =
       CMakeOhosBuilder h dir compiler_prefix s
   \<and> (\<forall>self s'. create h (Member kind) dir compiler_prefix s = (Inr self, s') \<longrightarrow>
         variant_of self = kind \<and> build_dir self = dir \<and> s' = s)
   \<and> create h (NonMember v) dir compiler_prefix s =
       (Inl (ValueError (''Invalid builder type: '' @ v)), s)"
proof -
  have made: "variant_of self = kind \<and> build_dir self = dir \<and> s' = s"
    if "create h (Member kind) dir compiler_prefix s = (Inr self, s')" for self s'
  proof -
    have same: "s' = s"
      using that
      by (cases kind)
        (auto simp add: create_def NdkBuilder_def CMakeWindowsVsMsvcBuilder_def
          CMakeWindowsMingwBuilder_def CMakeClangBuilder_def CMakeGccBuilder_def
          CMakeAndroidBuilder_def CMakeOhosBuilder_def split: sum.splits)
    have "variant_of self = kind \<and> build_dir self = dir"
      using that by (cases kind) (auto simp add: create_def dest: constructed_variants)
    with same show ?thesis by simp
  qed
  have "create h (NonMember v) dir compiler_prefix s =
       (Inl (ValueError (''Invalid builder type: '' @ v)), s)"
    by (simp add: create_def)
  with made show ?thesis by (simp add: create_def)
qed

text \<open>
  On a Linux host with \<open>gcc\<close> and \<open>g++\<close> in \<open>/usr/bin\<close>, the selector
  \<open>CMAKE_GCC\<close> with the prefix \<open>/usr/bin/\<close> gives a GCC builder.
\<close>

theorem create_dispatch_witness:
  "(\<exists>self. create \<lparr>platform = ''linux'', environ = Map.empty,
        files = \<lparr>entries = [(''/usr/bin/gcc'', RegularFile), (''/usr/bin/g++'', RegularFile)],
                 undeletable = []\<rparr>\<rparr>
      (Member CMAKE_GCC) ''out'' ''/usr/bin/'' \<lparr>issued = [], printed = []\<rparr>
      = (Inr self, \<lparr>issued = [], printed = []\<rparr>)
     \<and> variant_of self = CMAKE_GCC \<and> build_dir self = ''out''
     \<and> config_cmd self = [''cmake'', ''-B'', ''out'', ''-G'', ''Ninja'',
          ''-DCMAKE_C_COMPILER:FILEPATH=/usr/bin/gcc'',
          ''-DCMAKE_CXX_COMPILER:FILEPATH=/usr/bin/g++''])"
proof -
  let ?h = "\<lparr>platform = ''linux'', environ = Map.empty,
        files = \<lparr>entries = [(''/usr/bin/gcc'', RegularFile), (''/usr/bin/g++'', RegularFile)],
                 undeletable = []\<rparr>\<rparr>"
  let ?s = "\<lparr>issued = [], printed = []\<rparr>"
  let ?self = "CMakeObject CMakeGccBuilder_class ''out''
       [''cmake'', ''-B'', ''out'', ''-G'', ''Ninja'',
        ''-DCMAKE_C_COMPILER:FILEPATH=/usr/bin/gcc'',
        ''-DCMAKE_CXX_COMPILER:FILEPATH=/usr/bin/g++''] [''cmake'', ''--build'', ''out'']"
  have gcc: "CMakeGccBuilder ?h ''out'' ''/usr/bin/'' ?s = (Inr ?self, ?s)"
    by (simp add: CMakeGccBuilder_def gcc_get_config_cmd_def gcc_compiler_paths_def
        ninja_compilers_def path_exists_def exists_str_def str_path_def Path_def splitroot_def
        cmake_config_cmd_def cmake_build_cmd_def)
  from create_dispatch [of ?h "''out''" "''/usr/bin/''" ?s CMAKE_GCC]
  have made: "create ?h (Member CMAKE_GCC) ''out'' ''/usr/bin/'' ?s = (Inr ?self, ?s)"
    and variant: "variant_of ?self = CMAKE_GCC \<and> build_dir ?self = ''out''"
    using gcc by simp_all
  from made variant show ?thesis by simp
qed

text \<open>
  Claim C9. For the selector \<open>CMAKE_WINDOWS_VS_MSVC\<close> the factory returns the same
  builder whatever the prefix, and whatever the host: the builder for the build
  directory whose configure command is \<open>cmake -B dir -G "Visual Studio 17 2022"\<close>
  and whose build command is \<open>cmake --build dir\<close>. Two such builders therefore
  behave alike in every call of \<open>build\<close>.
\<close>

theorem msvc_ignores_prefix:
  "create h1 (Member CMAKE_WINDOWS_VS_MSVC) dir prefix1 s =
     create h2 (Member CMAKE_WINDOWS_VS_MSVC) dir prefix2 s
   \<and> create h1 (Member CMAKE_WINDOWS_VS_MSVC) dir prefix1 s =
       (Inr (CMakeObject CMakeWindowsVsMsvcBuilder_class dir
               [''cmake'', ''-B'', dir, ''-G'', ''Visual Studio 17 2022'']
               [''cmake'', ''--build'', dir]), s)"
  by (simp add: create_def CMakeWindowsVsMsvcBuilder_def cmake_config_cmd_def cmake_build_cmd_def)

section \<open>The builder's own state\<close>

lemma build_self: "fst (snd (build sys self build_options s)) = self"
  by (cases self) (auto simp add: Let_def split: prod.splits sum.splits)

lemma build_once:
  assumes "build sys self build_options s = (r, self', s')"
  shows "self' = self"
    and "\<exists>k\<le>length (command_lines self build_options).
           issued s' = issued s @ take k (command_lines self build_options)"
    and "r = Inr () \<Longrightarrow> issued s' = issued s @ command_lines self build_options"
proof -
  show "self' = self" using build_self [of sys self build_options s] assms by simp
  show "\<exists>k\<le>length (command_lines self build_options).
           issued s' = issued s @ take k (command_lines self build_options)"
  proof (cases self)
    case (NdkObject d bc)
    with assms have "issued s' = issued s @ [bc @ or_empty build_options]"
      using ndk_build_issued [of sys d bc build_options s] by simp
    with NdkObject show ?thesis by (intro exI [of _ 1]) simp
  next
    case (CMakeObject c d cc bc)
    let ?config = "cc @ or_empty build_options"
    obtain r1 s1 where first: "run_cmd sys ?config s = (r1, s1)" by (cases "run_cmd sys ?config s")
    then have s1: "issued s1 = issued s @ [?config]" using run_cmd_issued [of sys ?config s] by simp
    show ?thesis
    proof (cases r1)
      case (Inl e)
      with assms CMakeObject first have "s' = s1" by (simp add: Let_def)
      with s1 CMakeObject show ?thesis by (intro exI [of _ 1]) simp
    next
      case (Inr u)
      with assms CMakeObject first have "s' = snd (run_cmd sys bc s1)"
        by (simp add: Let_def split: prod.splits)
      then have "issued s' = issued s @ [?config, bc]" by (simp add: run_cmd_issued s1)
      with CMakeObject show ?thesis by (intro exI [of _ 2]) simp
    qed
  qed
  show "issued s' = issued s @ command_lines self build_options" if "r = Inr ()"
  proof (cases self)
    case (NdkObject d bc)
    with assms show ?thesis using ndk_build_issued [of sys d bc build_options s] by simp
  next
    case (CMakeObject c d cc bc)
    let ?config = "cc @ or_empty build_options"
    obtain r1 s1 where first: "run_cmd sys ?config s = (r1, s1)" by (cases "run_cmd sys ?config s")
    then have s1: "issued s1 = issued s @ [?config]" using run_cmd_issued [of sys ?config s] by simp
    from assms CMakeObject first that obtain u where "r1 = Inr u"
      by (cases r1) (auto simp add: Let_def)
    with assms CMakeObject first have "s' = snd (run_cmd sys bc s1)"
      by (simp add: Let_def split: prod.splits)
    then have "issued s' = issued s @ [?config, bc]" by (simp add: run_cmd_issued s1)
    with CMakeObject show ?thesis by simp
  qed
qed

lemma build_repeatedly_issued:
  assumes "build_repeatedly sys n build_options self s = (r, self', s')"
  shows "self' = self
     \<and> (\<exists>k. issued s' = issued s @ take k (concat (replicate n (command_lines self build_options))))
     \<and> (r = Inr () \<longrightarrow>
          issued s' = issued s @ concat (replicate n (command_lines self build_options)))"
  using assms
proof (induction n arbitrary: s)
  case 0
  then show ?case by simp
next
  case (Suc n)
  let ?cl = "command_lines self build_options"
  obtain r1 self1 s1 where first: "build sys self build_options s = (r1, self1, s1)"
    using prod_cases3 by blast
  note once = build_once [OF first]
  show ?case
  proof (cases r1)
    case (Inl e)
    with Suc.prems first have res: "r = Inl e" "self' = self1" "s' = s1" by simp_all
    from once(2) obtain k where k: "k \<le> length ?cl" "issued s1 = issued s @ take k ?cl" by blast
    then have "issued s' = issued s @ take k (concat (replicate (Suc n) ?cl))"
      using res by simp
    with res once(1) show ?thesis by blast
  next
    case (Inr u)
    with Suc.prems first once(1) have rest: "build_repeatedly sys n build_options self s1 = (r, self', s')"
      by simp
    have s1: "issued s1 = issued s @ ?cl" using once(3) Inr by simp
    from Suc.IH [OF rest] obtain k where
      self: "self' = self" and
      k: "issued s' = issued s1 @ take k (concat (replicate n ?cl))" and
      all: "r = Inr () \<longrightarrow> issued s' = issued s1 @ concat (replicate n ?cl)"
      by blast
    have "issued s' = issued s @ take (length ?cl + k) (concat (replicate (Suc n) ?cl))"
      using k s1 by simp
    then have some: "\<exists>k. issued s' = issued s @ take k (concat (replicate (Suc n) ?cl))" ..
    have "r = Inr () \<longrightarrow> issued s' = issued s @ concat (replicate (Suc n) ?cl)"
      using all s1 by simp
    with self some show ?thesis by blast
  qed
qed

text \<open>
  Claim C10. A call of \<open>build\<close>, whatever its outcome, returns the builder as it
  was: build directory and stored command lines are the same after the call as
  before. So \<open>n\<close> calls in a row with equal options leave the builder as it was, the
  commands they issue are an initial part of \<open>n\<close> copies of the same command lines,
  and they are all \<open>n\<close> copies when every call returns.
\<close>

theorem build_leaves_builder_unchanged:
  "fst (snd (build sys self build_options s)) = self
   \<and> (\<forall>r self' s'. build_repeatedly sys n build_options self s = (r, self', s') \<longrightarrow>
         self' = self
         \<and> (\<exists>k. issued s' =
                 issued s @ take k (concat (replicate n (command_lines self build_options))))
         \<and> (r = Inr () \<longrightarrow>
              issued s' = issued s @ concat (replicate n (command_lines self build_options))))"
  using build_self build_repeatedly_issued by blast

text \<open>
  Two builds in a row of a GCC builder with the option \<open>-DCMAKE_BUILD_TYPE=Debug\<close>,
  all children succeeding: the same two command lines, twice.
\<close>

theorem build_leaves_builder_unchanged_witness:
  "build_repeatedly (\<lambda>log. Completed 0 [] []) 2 (Some [''-DCMAKE_BUILD_TYPE=Debug''])
      (CMakeObject CMakeGccBuilder_class ''out''
         [''cmake'', ''-B'', ''out'', ''-G'', ''Ninja''] [''cmake'', ''--build'', ''out''])
      \<lparr>issued = [], printed = []\<rparr>
    = (Inr (),
       CMakeObject CMakeGccBuilder_class ''out''
         [''cmake'', ''-B'', ''out'', ''-G'', ''Ninja''] [''cmake'', ''--build'', ''out''],
       \<lparr>issued = [[''cmake'', ''-B'', ''out'', ''-G'', ''Ninja'', ''-DCMAKE_BUILD_TYPE=Debug''],
                  [''cmake'', ''--build'', ''out''],
                  [''cmake'', ''-B'', ''out'', ''-G'', ''Ninja'', ''-DCMAKE_BUILD_TYPE=Debug''],
                  [''cmake'', ''--build'', ''out'']],
        printed = [[], [], [], []]\<rparr>)"
proof -
  let ?sys = "\<lambda>log :: string list list. Completed 0 [] []"
  let ?self = "CMakeObject CMakeGccBuilder_class ''out''
         [''cmake'', ''-B'', ''out'', ''-G'', ''Ninja''] [''cmake'', ''--build'', ''out'']"
  let ?opts = "Some [''-DCMAKE_BUILD_TYPE=Debug'']"
  let ?s = "\<lparr>issued = [], printed = []\<rparr>"
  obtain r self' s' where run: "build_repeatedly ?sys 2 ?opts ?self ?s = (r, self', s')"
    using prod_cases3 by blast
  have r: "r = Inr ()" and p: "printed s' = [[], [], [], []]"
    using run by (auto simp add: numeral_2_eq_2 run_cmd_def Let_def or_empty_def)
  from build_leaves_builder_unchanged [of ?sys ?self ?opts ?s 2] run r
  have "self' = ?self" and
    "issued s' = concat (replicate 2 (command_lines ?self ?opts))"
    by simp_all
  then have "self' = ?self" and
    "issued s' = [[''cmake'', ''-B'', ''out'', ''-G'', ''Ninja'', ''-DCMAKE_BUILD_TYPE=Debug''],
                  [''cmake'', ''--build'', ''out''],
                  [''cmake'', ''-B'', ''out'', ''-G'', ''Ninja'', ''-DCMAKE_BUILD_TYPE=Debug''],
                  [''cmake'', ''--build'', ''out'']]"
    by (simp_all add: numeral_2_eq_2 or_empty_def)
  with run r p show ?thesis by simp
qed

section \<open>Cleaning the build directory\<close>







end
